theory Spec2Isabelle
  imports Complex_Main "HOL-Library.Sublist"
begin

section \<open>Data model\<close>

text \<open>
  An inventory record, as the entries of \<^verbatim>\<open>INVENTARIO_ACTUAL.json\<close> are read by the
  service: \<^verbatim>\<open>producto_id\<close> is the lookup key, \<^verbatim>\<open>marca_vehiculo\<close> and
  \<^verbatim>\<open>descripcion_corta\<close> are the two searchable fields, \<^verbatim>\<open>anio_desde\<close> and
  \<^verbatim>\<open>anio_hasta\<close> bound the years the part is valid for.  JavaScript numbers that hold
  integers are modelled as unbounded \<^typ>\<open>int\<close>.
\<close>

record item =
  producto_id :: string
  marca_vehiculo :: string
  descripcion_corta :: string
  condicion :: string
  calidad_repuesto :: string
  anio_desde :: int
  anio_hasta :: int

text \<open>
  One entry of the list returned by \<^verbatim>\<open>fuse.search\<close> with \<^verbatim>\<open>includeScore\<close> and
  \<^verbatim>\<open>includeMatches\<close> switched on.
\<close>

record fuse_match =
  indices :: "(nat \<times> nat) list"
  match_value :: string
  key :: string

record fuse_result =
  item :: item
  refIndex :: nat
  score :: rat
  matches :: "fuse_match list"

text \<open>
  The object \<^verbatim>\<open>{...result.item, score: result.score, matches: result.matches}\<close> built for
  every returned result: the fields of the record followed by the two fields of the match.
\<close>

record formatted_result = item +
  score :: rat
  matches :: "fuse_match list"

definition format_result :: "fuse_result \<Rightarrow> formatted_result" where
  "format_result result =
     \<lparr>producto_id = producto_id (item result),
      marca_vehiculo = marca_vehiculo (item result),
      descripcion_corta = descripcion_corta (item result),
      condicion = condicion (item result),
      calidad_repuesto = calidad_repuesto (item result),
      anio_desde = anio_desde (item result),
      anio_hasta = anio_hasta (item result),
      score = fuse_result.score result,
      matches = fuse_result.matches result\<rparr>"

text \<open>
  A JavaScript number as \<^verbatim>\<open>Math.ceil(a / b)\<close> can produce it from two integers: a finite
  integer, \<^verbatim>\<open>Infinity\<close> (a positive count divided by zero) or \<^verbatim>\<open>NaN\<close> (zero divided by
  zero).
\<close>

datatype js_number = Finite int | PosInfinity | NaN

definition ceil_div :: "int \<Rightarrow> int \<Rightarrow> js_number" where
  "ceil_div a b =
     (if b = 0 then (if a = 0 then NaN else PosInfinity)
      else Finite (- ((- a) div b)))"

text \<open>
  \<^verbatim>\<open>Array.prototype.slice(start, end)\<close>: a negative bound counts from the end of the array,
  both bounds are cut to the array, and an empty array results when the bounds cross.
\<close>

definition js_slice :: "'a list \<Rightarrow> int \<Rightarrow> int \<Rightarrow> 'a list" where
  "js_slice xs start end =
     (let len = int (length xs);
          k = (if start < 0 then max (len + start) 0 else min start len);
          final = (if end < 0 then max (len + end) 0 else min end len)
      in take (nat (final - k)) (drop (nat k) xs))"

section \<open>The search service\<close>

text \<open>
  The matcher is the third-party library Fuse.js, which is not part of the repository.
  The index built by \<^verbatim>\<open>new Fuse(this.inventory, fuseOptions)\<close> is therefore a parameter: a
  function from the query to the complete list of matches, sorted by score.
\<close>

type_synonym fuse = "string \<Rightarrow> fuse_result list"

text \<open>
  Modelled from the spec: the truncation of the ranked candidates to the candidate cap (the
  \<^verbatim>\<open>limit\<close> option of \<^verbatim>\<open>fuse.search\<close>, whose code is not in the repository).  The ranked
  list is cut to its first \<^verbatim>\<open>limit\<close> entries; a limit that is not above \<open>-1\<close>, the
  library's default, leaves the list as it is.
\<close>

definition fuse_search :: "fuse \<Rightarrow> string \<Rightarrow> int \<Rightarrow> fuse_result list" where
  "fuse_search f query limit =
     (if limit > -1 then take (nat limit) (f query) else f query)"

record SearchService =
  inventory :: "item list"
  fuse :: fuse

text \<open>
  The three variables of \<^verbatim>\<open>process.env\<close> read by the service, the limits as
  \<^verbatim>\<open>parseInt\<close> reads them and the threshold as \<^verbatim>\<open>parseFloat\<close> reads it: \<open>None\<close> is
  \<^verbatim>\<open>NaN\<close> (the variable is unset or holds no number).
\<close>

record process_env =
  DEFAULT_SEARCH_LIMIT :: "int option"
  MAX_SEARCH_LIMIT :: "int option"
  FUSE_THRESHOLD :: "rat option"

text \<open>\<^verbatim>\<open>parseInt(v) || d\<close>: \<^verbatim>\<open>NaN\<close> and \<open>0\<close> are falsy and give the default.\<close>

definition or_default :: "int option \<Rightarrow> int \<Rightarrow> int" where
  "or_default v d = (case v of None \<Rightarrow> d | Some n \<Rightarrow> if n = 0 then d else n)"

text \<open>
  The options bag handed to the service; \<open>None\<close> is an absent (\<^verbatim>\<open>undefined\<close>) property.
  The controller fills in \<^verbatim>\<open>threshold\<close>, the field-specific searches add \<^verbatim>\<open>fields\<close>.
\<close>

record options =
  limit :: "int option"
  page :: "int option"
  threshold :: "rat option"
  fields' :: "string list option"

record search_data =
  results :: "formatted_result list"
  total :: int
  page :: int
  limit :: int
  totalPages :: js_number
  query :: string
  searchTime :: int

record year_search_data = search_data +
  searchYear :: "int option"
  yearFiltered :: bool

record 'd response =
  success :: bool
  data :: 'd

text \<open>
  \<^verbatim>\<open>SearchService.search\<close>.  The service is taken as initialised.  The pair \<open>clock\<close> holds
  the two readings of \<^verbatim>\<open>Date.now()\<close>, at the start of the call and after the results are
  formatted; \<open>searchTime\<close> is their difference in milliseconds (the source renders it with
  the suffix \<^verbatim>\<open>ms\<close>).
\<close>

definition search ::
  "SearchService \<Rightarrow> process_env \<Rightarrow> int \<times> int \<Rightarrow> string \<Rightarrow> options \<Rightarrow> search_data response" where
  "search svc env clock q opts =
     (let startTime = fst clock;
          limit = (case options.limit opts of
                     None \<Rightarrow> or_default (DEFAULT_SEARCH_LIMIT env) 10
                   | Some l \<Rightarrow> l);
          page = (case options.page opts of None \<Rightarrow> 1 | Some p \<Rightarrow> p);
          maxLimit = or_default (MAX_SEARCH_LIMIT env) 100;
          actualLimit = min limit maxLimit;
          results = fuse_search (fuse svc) q (actualLimit * page);
          startIndex = (page - 1) * actualLimit;
          endIndex = startIndex + actualLimit;
          paginatedResults = js_slice results startIndex endIndex;
          formattedResults = map format_result paginatedResults;
          searchTime = snd clock - startTime
      in \<lparr>success = True,
          data = \<lparr>results = formattedResults,
                  total = int (length results),
                  page = page,
                  limit = actualLimit,
                  totalPages = ceil_div (int (length results)) actualLimit,
                  query = q,
                  searchTime = searchTime\<rparr>\<rparr>)"

definition searchByBrand ::
  "SearchService \<Rightarrow> process_env \<Rightarrow> int \<times> int \<Rightarrow> string \<Rightarrow> options \<Rightarrow> search_data response" where
  "searchByBrand svc env clock brand opts =
     search svc env clock brand (opts\<lparr>fields' := Some [''marca_vehiculo'']\<rparr>)"

definition searchByDescription ::
  "SearchService \<Rightarrow> process_env \<Rightarrow> int \<times> int \<Rightarrow> string \<Rightarrow> options \<Rightarrow> search_data response" where
  "searchByDescription svc env clock description opts =
     search svc env clock description (opts\<lparr>fields' := Some [''descripcion_corta'']\<rparr>)"

text \<open>
  The predicate of the year filter, \<^verbatim>\<open>searchYear >= itemYearFrom && searchYear <= itemYearTo\<close>.
\<close>

definition year_in_range :: "int \<Rightarrow> fuse_result \<Rightarrow> bool" where
  "year_in_range year result =
     (year \<ge> anio_desde (item result) \<and> year \<le> anio_hasta (item result))"

text \<open>
  Step 2 of \<^verbatim>\<open>searchWithYearRange\<close>.  The year is \<open>None\<close> when it is \<^verbatim>\<open>undefined\<close> or
  \<^verbatim>\<open>NaN\<close>; the guard \<^verbatim>\<open>searchYear && !isNaN(searchYear)\<close> also skips the year \<open>0\<close>, which
  is falsy.
\<close>

definition filterByYear :: "int option \<Rightarrow> fuse_result list \<Rightarrow> fuse_result list" where
  "filterByYear year textResults =
     (case year of
        None \<Rightarrow> textResults
      | Some y \<Rightarrow> if y = 0 then textResults else filter (year_in_range y) textResults)"

definition searchWithYearRange ::
  "SearchService \<Rightarrow> process_env \<Rightarrow> int \<times> int \<Rightarrow> string \<Rightarrow> int option \<Rightarrow> options
     \<Rightarrow> year_search_data response" where
  "searchWithYearRange svc env clock q year opts =
     (let startTime = fst clock;
          limit = (case options.limit opts of
                     None \<Rightarrow> or_default (DEFAULT_SEARCH_LIMIT env) 10
                   | Some l \<Rightarrow> l);
          page = (case options.page opts of None \<Rightarrow> 1 | Some p \<Rightarrow> p);
          maxLimit = or_default (MAX_SEARCH_LIMIT env) 100;
          actualLimit = min limit maxLimit;
          textResults = fuse_search (fuse svc) q (actualLimit * page * 2);
          filteredResults = filterByYear year textResults;
          startIndex = (page - 1) * actualLimit;
          endIndex = startIndex + actualLimit;
          paginatedResults = js_slice filteredResults startIndex endIndex;
          formattedResults = map format_result paginatedResults;
          searchTime = snd clock - startTime
      in \<lparr>success = True,
          data = \<lparr>results = formattedResults,
                  total = int (length filteredResults),
                  page = page,
                  limit = actualLimit,
                  totalPages = ceil_div (int (length filteredResults)) actualLimit,
                  query = q,
                  searchTime = searchTime,
                  searchYear = (case year of
                                  None \<Rightarrow> None
                                | Some y \<Rightarrow> if y = 0 then None else Some y),
                  yearFiltered = (case year of
                                    None \<Rightarrow> False
                                  | Some y \<Rightarrow> y \<noteq> 0)\<rparr>\<rparr>)"

text \<open>
  \<^verbatim>\<open>SearchService.getItemById\<close>: \<^verbatim>\<open>{success: true, data: item}\<close> for the first record
  with the key, \<^verbatim>\<open>{success: false, message: 'Item not found'}\<close> when \<^verbatim>\<open>find\<close> returns
  \<^verbatim>\<open>undefined\<close>.
\<close>

datatype item_response = Found item | NotFound string

definition getItemById :: "SearchService \<Rightarrow> string \<Rightarrow> item_response" where
  "getItemById svc productId =
     (case find (\<lambda>it. producto_id it = productId) (inventory svc) of
        None \<Rightarrow> NotFound ''Item not found''
      | Some it \<Rightarrow> Found it)"

text \<open>
  The effective limit of a call, as both search functions compute \<^verbatim>\<open>actualLimit\<close>.
\<close>

definition effective_limit :: "process_env \<Rightarrow> options \<Rightarrow> int" where
  "effective_limit env opts =
     min (case options.limit opts of
            None \<Rightarrow> or_default (DEFAULT_SEARCH_LIMIT env) 10
          | Some l \<Rightarrow> l)
         (or_default (MAX_SEARCH_LIMIT env) 100)"

text \<open>Page \<open>p\<close> of a query at limit \<open>L\<close>, each obtained by a call of its own.\<close>

definition page_options :: "int \<Rightarrow> int \<Rightarrow> options" where
  "page_options L p =
     \<lparr>options.limit = Some L, options.page = Some p, options.threshold = None,
      fields' = None\<rparr>"

definition search_page ::
  "SearchService \<Rightarrow> process_env \<Rightarrow> int \<times> int \<Rightarrow> string \<Rightarrow> int \<Rightarrow> int \<Rightarrow> formatted_result list" where
  "search_page svc env clock qry L p =
     results (data (search svc env clock qry (page_options L p)))"

definition year_search_page ::
  "SearchService \<Rightarrow> process_env \<Rightarrow> int \<times> int \<Rightarrow> string \<Rightarrow> int option \<Rightarrow> int \<Rightarrow> int
     \<Rightarrow> formatted_result list" where
  "year_search_page svc env clock qry year L p =
     results (data (searchWithYearRange svc env clock qry year (page_options L p)))"

text \<open>The items of pages \<open>1\<close> to \<open>n\<close>, one after the other.\<close>

definition all_pages :: "(int \<Rightarrow> 'a list) \<Rightarrow> nat \<Rightarrow> 'a list" where
  "all_pages pg n = concat (map (\<lambda>p. pg (int p)) [1..<Suc n])"

section \<open>The controller's advanced search\<close>

text \<open>
  A numeric parameter of the query string: \<open>Absent\<close> when it is missing or empty (falsy),
  \<open>NotANumber\<close> when it is present and \<^verbatim>\<open>parseInt\<close> reads \<^verbatim>\<open>NaN\<close>, \<open>Number n\<close> when
  \<^verbatim>\<open>parseInt\<close> reads \<open>n\<close>.
\<close>

datatype num_param = Absent | NotANumber | Number int

record advanced_query =
  q :: "string option"
  brand :: "string option"
  condition :: "string option"
  quality :: "string option"
  yearFrom :: num_param
  yearTo :: num_param
  limit :: num_param
  page :: num_param
  threshold :: "rat option"

datatype 'a http_reply = BadRequest string | Json 'a

definition truthy :: "string option \<Rightarrow> bool" where
  "truthy s = (case s of None \<Rightarrow> False | Some v \<Rightarrow> v \<noteq> [])"

definition present :: "num_param \<Rightarrow> bool" where
  "present p = (case p of Absent \<Rightarrow> False | _ \<Rightarrow> True)"

text \<open>\<^verbatim>\<open>parseInt(p) || undefined\<close>.\<close>

definition parseInt_or_undefined :: "num_param \<Rightarrow> int option" where
  "parseInt_or_undefined p =
     (case p of Number n \<Rightarrow> if n = 0 then None else Some n | _ \<Rightarrow> None)"

text \<open>\<^verbatim>\<open>parseInt(p) || d\<close>.\<close>

definition parseInt_or :: "num_param \<Rightarrow> int \<Rightarrow> int" where
  "parseInt_or p d = (case p of Number n \<Rightarrow> if n = 0 then d else n | _ \<Rightarrow> d)"

text \<open>\<^verbatim>\<open>if (s) searchQuery += s + ' '\<close>.\<close>

definition query_term :: "string option \<Rightarrow> string" where
  "query_term s = (case s of None \<Rightarrow> [] | Some v \<Rightarrow> if v = [] then [] else v @ '' '')"

text \<open>
  The white space and line terminators that \<^verbatim>\<open>String.prototype.trim\<close> strips, each as
  the bytes of its UTF-8 encoding (a \<^typ>\<open>string\<close> holds the bytes of the text): the ASCII
  characters U+0009 to U+000D and U+0020, then U+00A0, U+1680, U+2000 to U+200A, U+2028,
  U+2029, U+202F, U+205F, U+3000 and U+FEFF.
\<close>

definition white_space :: "string list" where
  "white_space =
     [[CHR 0x09], [CHR 0x0A], [CHR 0x0B], [CHR 0x0C], [CHR 0x0D], [CHR 0x20],
      [CHR 0xC2, CHR 0xA0], [CHR 0xE1, CHR 0x9A, CHR 0x80],
      [CHR 0xE2, CHR 0x80, CHR 0x80], [CHR 0xE2, CHR 0x80, CHR 0x81],
      [CHR 0xE2, CHR 0x80, CHR 0x82], [CHR 0xE2, CHR 0x80, CHR 0x83],
      [CHR 0xE2, CHR 0x80, CHR 0x84], [CHR 0xE2, CHR 0x80, CHR 0x85],
      [CHR 0xE2, CHR 0x80, CHR 0x86], [CHR 0xE2, CHR 0x80, CHR 0x87],
      [CHR 0xE2, CHR 0x80, CHR 0x88], [CHR 0xE2, CHR 0x80, CHR 0x89],
      [CHR 0xE2, CHR 0x80, CHR 0x8A], [CHR 0xE2, CHR 0x80, CHR 0xA8],
      [CHR 0xE2, CHR 0x80, CHR 0xA9], [CHR 0xE2, CHR 0x80, CHR 0xAF],
      [CHR 0xE2, CHR 0x81, CHR 0x9F], [CHR 0xE3, CHR 0x80, CHR 0x80],
      [CHR 0xEF, CHR 0xBB, CHR 0xBF]]"

text \<open>Removes the given sequences from the front of a string for as long as one is there.\<close>

function strip :: "string list \<Rightarrow> string \<Rightarrow> string" where
  "strip ws s =
     (case find (\<lambda>w. w \<noteq> [] \<and> prefix w s) ws of
        None \<Rightarrow> s
      | Some w \<Rightarrow> strip ws (drop (length w) s))"
  by pat_completeness auto
termination
  by (relation "measure (\<lambda>(ws, s). length s)") (auto simp: find_Some_iff prefix_def)

text \<open>\<^verbatim>\<open>String.prototype.trim\<close>: white space is removed from both ends.\<close>

definition trim :: "string \<Rightarrow> string" where
  "trim s = rev (strip (map rev white_space) (rev (strip white_space s)))"

text \<open>
  The callback of the filter over \<^verbatim>\<open>result.data.results\<close>: a comparison with \<^verbatim>\<open>NaN\<close> is
  false, so an unreadable bound excludes nothing.
\<close>

definition advanced_year_ok :: "num_param \<Rightarrow> num_param \<Rightarrow> formatted_result \<Rightarrow> bool" where
  "advanced_year_ok yFrom yTo it =
     (let year = anio_desde it in
      if (case yFrom of Number n \<Rightarrow> year < n | _ \<Rightarrow> False) then False
      else if (case yTo of Number n \<Rightarrow> year > n | _ \<Rightarrow> False) then False
      else True)"

definition advancedSearch ::
  "SearchService \<Rightarrow> process_env \<Rightarrow> int \<times> int \<Rightarrow> advanced_query
     \<Rightarrow> search_data response http_reply" where
  "advancedSearch svc env clock req =
     (if \<not> truthy (q req) \<and> \<not> truthy (brand req) \<and> \<not> truthy (condition req)
           \<and> \<not> truthy (quality req)
      then BadRequest
             ''At least one search parameter is required (q, brand, condition, or quality)''
      else
        let opts = \<lparr>options.limit = parseInt_or_undefined (advanced_query.limit req),
                    options.page = Some (parseInt_or (advanced_query.page req) 1),
                    options.threshold =
                      (case advanced_query.threshold req of
                         None \<Rightarrow> None
                       | Some t \<Rightarrow> if t = 0 then None else Some t),
                    fields' = None\<rparr>;
            searchQuery = query_term (q req) @ query_term (brand req)
                            @ query_term (condition req) @ query_term (quality req);
            result = search svc env clock (trim searchQuery) opts
        in if present (yearFrom req) \<or> present (yearTo req)
           then let kept = filter (advanced_year_ok (yearFrom req) (yearTo req))
                             (results (data result))
                in Json (result\<lparr>data := (data result)\<lparr>results := kept,
                                                      total := int (length kept)\<rparr>\<rparr>)
           else Json result)"

section \<open>The matcher and ranker of the specification\<close>

text \<open>
  Modelled from the spec: the Fuzzy Matcher, Field Scorer and Ranker (sections 4.1 to 4.3).
  The repository delegates them to Fuse.js, whose code is not under \<^verbatim>\<open>src/\<close>.  The
  formula of the blended match cost is left to the implementation by the spec, so it is
  the parameter \<open>cost\<close>: the cost of a query against the text of one field.
\<close>

type_synonym cost = "string \<Rightarrow> string \<Rightarrow> rat"

record SearchConfiguration =
  threshold :: rat
  minMatchLength :: nat
  distance :: nat
  fieldWeights :: "string \<Rightarrow> rat"

text \<open>
  Modelled from the spec: \<^verbatim>\<open>match\<close> of section 4.1.  Input shorter than
  \<^verbatim>\<open>minMatchLength\<close> never matches; a field matches iff the cost is at most the threshold,
  and the score returned is that cost.  Matched spans are left out (the empty sequence is
  permitted).
\<close>

definition fuzzy_match :: "cost \<Rightarrow> SearchConfiguration \<Rightarrow> string \<Rightarrow> string \<Rightarrow> rat option" where
  "fuzzy_match c cfg qry txt =
     (if length qry < minMatchLength cfg then None
      else if c qry txt \<le> SearchConfiguration.threshold cfg then Some (c qry txt)
      else None)"

text \<open>
  Modelled from the spec: the fields that matched, each with its weight and its score.
\<close>

definition matched_fields :: "cost \<Rightarrow> SearchConfiguration \<Rightarrow> string \<Rightarrow> item \<Rightarrow> (rat \<times> rat) list" where
  "matched_fields c cfg qry r =
     List.map_filter
       (\<lambda>(f, txt). map_option (\<lambda>s. (fieldWeights cfg f, s)) (fuzzy_match c cfg qry txt))
       [(''vehicleBrand'', marca_vehiculo r), (''shortDescription'', descripcion_corta r)]"

text \<open>
  Modelled from the spec: \<^verbatim>\<open>scoreRecord\<close> of section 4.2.  A record matches iff at least
  one field matches; its score is the weighted sum of the scores of the matching fields
  divided by the sum of their weights.
\<close>

definition scoreRecord :: "cost \<Rightarrow> SearchConfiguration \<Rightarrow> string \<Rightarrow> item \<Rightarrow> rat option" where
  "scoreRecord c cfg qry r =
     (let ms = matched_fields c cfg qry r in
      if ms = [] then None
      else Some (sum_list (map (\<lambda>(w, s). w * s) ms) / sum_list (map fst ms)))"

text \<open>
  Modelled from the spec: the Ranker of section 4.3 before its truncation to the candidate
  cap (\<^verbatim>\<open>rankAndScore\<close> of section 6): a linear scan of the Record Store that drops the
  records with no match and sorts the others by ascending score, stable on ties.
\<close>

definition rankAndScore :: "cost \<Rightarrow> SearchConfiguration \<Rightarrow> item list \<Rightarrow> fuse" where
  "rankAndScore c cfg store qry =
     sort_key fuse_result.score
       (List.map_filter
          (\<lambda>(i, r). map_option
                      (\<lambda>s. \<lparr>item = r, refIndex = i, fuse_result.score = s,
                             fuse_result.matches = []\<rparr>)
                      (scoreRecord c cfg qry r))
          (enumerate 0 store))"


text \<open>
  Modelled from the spec: the service whose index is the Ranker of the specification, so
  that the pipeline of \<^verbatim>\<open>search\<close> runs on its ranked candidates.
\<close>

definition spec_service :: "cost \<Rightarrow> SearchConfiguration \<Rightarrow> item list \<Rightarrow> SearchService" where
  "spec_service c cfg store = \<lparr>inventory = store, fuse = rankAndScore c cfg store\<rparr>"


section \<open>A small inventory\<close>

definition item_A1 :: item where
  "item_A1 = \<lparr>producto_id = ''A1'', marca_vehiculo = ''Toyota'',
              descripcion_corta = ''sensor oxigeno'', condicion = ''Nuevo'',
              calidad_repuesto = ''Original'', anio_desde = 2015, anio_hasta = 2020\<rparr>"

definition item_A2 :: item where
  "item_A2 = \<lparr>producto_id = ''A2'', marca_vehiculo = ''Toyota'',
              descripcion_corta = ''filtro aceite'', condicion = ''Nuevo'',
              calidad_repuesto = ''Original'', anio_desde = 2016, anio_hasta = 2021\<rparr>"

definition item_A3 :: item where
  "item_A3 = \<lparr>producto_id = ''A3'', marca_vehiculo = ''Toyota'',
              descripcion_corta = ''manguera radiador'', condicion = ''Usado'',
              calidad_repuesto = ''Generico'', anio_desde = 2010, anio_hasta = 2014\<rparr>"

definition hit :: "nat \<Rightarrow> item \<Rightarrow> fuse_result" where
  "hit i it = \<lparr>item = it, refIndex = i, fuse_result.score = 1 / 1000, fuse_result.matches = []\<rparr>"

text \<open>An index over the three records in which the query \<^verbatim>\<open>Toyota\<close> matches all of them.\<close>

definition toyota_fuse :: fuse where
  "toyota_fuse qry =
     (if qry = ''Toyota'' then [hit 0 item_A1, hit 1 item_A2, hit 2 item_A3] else [])"

definition toyota_service :: SearchService where
  "toyota_service = \<lparr>inventory = [item_A1, item_A2, item_A3], fuse = toyota_fuse\<rparr>"

definition default_env :: process_env where
  "default_env =
     \<lparr>DEFAULT_SEARCH_LIMIT = None, MAX_SEARCH_LIMIT = None, FUSE_THRESHOLD = None\<rparr>"

text \<open>
  Modelled from the spec: a sample cost (\<open>0\<close> for an exact match, one fifth for a
  prefix, \<open>1\<close> otherwise) and the configuration of the defaults (threshold \<open>0.3\<close>, weights
  \<open>0.6\<close> and \<open>0.4\<close>), with the minimum match length and distance the service passes to
  its matcher.
\<close>

definition sample_cost :: cost where
  "sample_cost qry txt = (if qry = txt then 0 else if prefix qry txt then 1 / 5 else 1)"

definition default_config :: SearchConfiguration where
  "default_config =
     \<lparr>threshold = 3 / 10, minMatchLength = 3, distance = 100,
      fieldWeights = (\<lambda>f. if f = ''vehicleBrand'' then 6 / 10 else 4 / 10)\<rparr>"

section \<open>Slices and pages\<close>

lemma js_slice_Nil: "js_slice [] s e = []"
  by (simp add: js_slice_def)

text \<open>What \<^verbatim>\<open>strip\<close> returns starts with none of the sequences.\<close>

lemma strip_done: "find (\<lambda>w. w \<noteq> [] \<and> prefix w (strip ws s)) ws = None"
  by (induction ws s rule: strip.induct) (simp split: option.splits)

lemma set_js_slice: "set (js_slice xs s e) \<subseteq> set xs"
  by (auto simp: js_slice_def Let_def dest!: in_set_takeD in_set_dropD)

lemma js_slice_nonneg:
  assumes "0 \<le> s" and "s \<le> e"
  shows "js_slice xs s e = take (nat (e - s)) (drop (nat s) xs)"
proof (cases "s \<le> int (length xs)")
  case True
  with assms have "js_slice xs s e = take (nat (min e (int (length xs)) - s)) (drop (nat s) xs)"
    by (simp add: js_slice_def Let_def min_def)
  also have "\<dots> = take (nat (e - s)) (drop (nat s) xs)"
  proof (cases "e \<le> int (length xs)")
    case True
    then show ?thesis by (simp add: min_def)
  next
    case False
    with \<open>s \<le> int (length xs)\<close> assms show ?thesis by (simp add: min_def)
  qed
  finally show ?thesis .
next
  case False
  with assms show ?thesis by (simp add: js_slice_def Let_def min_def)
qed

lemma effective_limit_page_options:
  "effective_limit env (page_options L p) = min L (or_default (MAX_SEARCH_LIMIT env) 100)"
  by (simp add: effective_limit_def page_options_def)

lemma take_drop_take: "take a (drop m (take (m + a) xs)) = take a (drop m xs)"
  by (simp add: drop_take)

lemma take_Suc_block:
  "take (Suc n * a) xs = take (n * a) xs @ take a (drop (n * a) xs)"
  using take_add[of "n * a" a xs] by (simp add: add.commute)

lemma prefix_take_drop:
  assumes "prefix ys xs"
  shows "prefix (take a (drop m ys)) (take a (drop m xs))"
proof -
  from assms obtain zs where "xs = ys @ zs" by (auto simp: prefix_def)
  then show ?thesis by (simp add: prefix_def)
qed

lemma all_pages_Suc: "all_pages pg (Suc n) = all_pages pg n @ pg (int (Suc n))"
  by (simp add: all_pages_def)

text \<open>
  At an effective limit \<open>A \<ge> 1\<close>, page \<open>p \<ge> 1\<close> of \<^verbatim>\<open>search\<close> is the \<open>p\<close>-th block of
  \<open>A\<close> entries of the ranked list: the cap \<open>A * p\<close> of the call reaches the end of that block.
\<close>

lemma search_page_block:
  assumes A: "effective_limit env (page_options L p) = A" and "1 \<le> A" and "1 \<le> p"
  shows "search_page svc env clock qry L p =
         map format_result (take (nat A) (drop (nat (p - 1) * nat A) (fuse svc qry)))"
proof -
  have A': "min L (or_default (MAX_SEARCH_LIMIT env) 100) = A"
    using A by (simp add: effective_limit_page_options)
  have "0 < A" "0 < p" using assms by simp_all
  then have "0 < A * p" by simp
  then have cap: "A * p > -1" by simp
  have s0: "0 \<le> (p - 1) * A" using assms by simp
  have idx: "nat (A * p) = nat (p - 1) * nat A + nat A"
    using assms by (simp add: nat_mult_distrib[symmetric] nat_add_distrib[symmetric] algebra_simps)
  have "search_page svc env clock qry L p =
        map format_result
          (js_slice (take (nat (A * p)) (fuse svc qry)) ((p - 1) * A) ((p - 1) * A + A))"
    using cap A'
    by (simp add: search_page_def search_def Let_def fuse_search_def page_options_def)
  also have "js_slice (take (nat (A * p)) (fuse svc qry)) ((p - 1) * A) ((p - 1) * A + A) =
        take (nat A) (drop (nat ((p - 1) * A)) (take (nat (A * p)) (fuse svc qry)))"
    using s0 assms by (simp add: js_slice_nonneg)
  also have "nat ((p - 1) * A) = nat (p - 1) * nat A"
    using assms by (simp add: nat_mult_distrib)
  also have "take (nat A) (drop (nat (p - 1) * nat A) (take (nat (A * p)) (fuse svc qry))) =
        take (nat A) (drop (nat (p - 1) * nat A) (fuse svc qry))"
    unfolding idx by (rule take_drop_take)
  finally show ?thesis .
qed

lemma all_pages_search:
  assumes "min L (or_default (MAX_SEARCH_LIMIT env) 100) = A" and "1 \<le> A"
  shows "all_pages (\<lambda>p. search_page svc env (clk p) qry L p) n =
         map format_result (take (n * nat A) (fuse svc qry))"
proof (induction n)
  case 0
  show ?case by (simp add: all_pages_def)
next
  case (Suc n)
  have "effective_limit env (page_options L (int (Suc n))) = A"
    using assms(1) by (simp add: effective_limit_page_options)
  from search_page_block[OF this assms(2), of svc "clk (int (Suc n))" qry]
  have "search_page svc env (clk (int (Suc n))) qry L (int (Suc n)) =
        map format_result (take (nat A) (drop (n * nat A) (fuse svc qry)))"
    by simp
  then show ?case
    unfolding all_pages_Suc Suc take_Suc_block by simp
qed

text \<open>
  The year filter of a capped list keeps a prefix of what it keeps of the whole list.
\<close>

lemma filterByYear_take_prefix:
  "prefix (filterByYear year (take k xs)) (filterByYear year xs)"
proof -
  have "prefix (filter P (take k xs)) (filter P xs)" for P :: "fuse_result \<Rightarrow> bool"
  proof -
    have "filter P xs = filter P (take k xs) @ filter P (drop k xs)"
      by (simp add: filter_append[symmetric])
    then show ?thesis by (simp add: prefix_def)
  qed
  moreover have "prefix (take k xs) xs" by (simp add: take_is_prefix)
  ultimately show ?thesis
    by (simp add: filterByYear_def split: option.splits)
qed

lemma year_search_page_block:
  assumes A: "effective_limit env (page_options L p) = A" and "1 \<le> A" and "1 \<le> p"
  shows "year_search_page svc env clock qry year L p =
         map format_result
           (take (nat A) (drop (nat (p - 1) * nat A)
              (filterByYear year (take (nat (A * p * 2)) (fuse svc qry)))))"
proof -
  have A': "min L (or_default (MAX_SEARCH_LIMIT env) 100) = A"
    using A by (simp add: effective_limit_page_options)
  have "0 < A" "0 < p" using assms by simp_all
  then have "0 < A * p" by simp
  then have cap: "A * p * 2 > -1" by simp
  have s0: "0 \<le> (p - 1) * A" using assms by simp
  have "year_search_page svc env clock qry year L p =
        map format_result
          (js_slice (filterByYear year (take (nat (A * p * 2)) (fuse svc qry)))
             ((p - 1) * A) ((p - 1) * A + A))"
    using cap A'
    by (simp add: year_search_page_def searchWithYearRange_def Let_def fuse_search_def
        page_options_def)
  also have "js_slice (filterByYear year (take (nat (A * p * 2)) (fuse svc qry)))
             ((p - 1) * A) ((p - 1) * A + A) =
        take (nat A) (drop (nat ((p - 1) * A))
          (filterByYear year (take (nat (A * p * 2)) (fuse svc qry))))"
    using s0 assms by (simp add: js_slice_nonneg)
  also have "nat ((p - 1) * A) = nat (p - 1) * nat A"
    using assms by (simp add: nat_mult_distrib)
  finally show ?thesis .
qed

lemma all_pages_year_search:
  assumes "min L (or_default (MAX_SEARCH_LIMIT env) 100) = A" and "1 \<le> A"
  shows "subseq (all_pages (\<lambda>p. year_search_page svc env (clk p) qry year L p) n)
           (map format_result (take (n * nat A) (filterByYear year (fuse svc qry))))"
proof (induction n)
  case 0
  show ?case by (simp add: all_pages_def)
next
  case (Suc n)
  have "effective_limit env (page_options L (int (Suc n))) = A"
    using assms(1) by (simp add: effective_limit_page_options)
  from year_search_page_block[OF this assms(2), of svc "clk (int (Suc n))" qry year]
  have pg: "year_search_page svc env (clk (int (Suc n))) qry year L (int (Suc n)) =
        map format_result (take (nat A) (drop (n * nat A)
          (filterByYear year (take (nat (A * int (Suc n) * 2)) (fuse svc qry)))))"
    by simp
  have "prefix (take (nat A) (drop (n * nat A)
          (filterByYear year (take (nat (A * int (Suc n) * 2)) (fuse svc qry)))))
        (take (nat A) (drop (n * nat A) (filterByYear year (fuse svc qry))))"
    by (rule prefix_take_drop) (rule filterByYear_take_prefix)
  then have "subseq (year_search_page svc env (clk (int (Suc n))) qry year L (int (Suc n)))
        (map format_result (take (nat A) (drop (n * nat A) (filterByYear year (fuse svc qry)))))"
    unfolding pg by (intro subseq_map prefix_imp_subseq)
  with Suc show ?case
    unfolding all_pages_Suc take_Suc_block map_append
    by (rule list_emb_append_mono)
qed

text \<open>
  When the cap of the first page already holds every match, no call loses a candidate to
  the cap and the pages are the blocks of the filtered sequence.
\<close>

lemma all_pages_year_exact:
  assumes "min L (or_default (MAX_SEARCH_LIMIT env) 100) = A" and "1 \<le> A"
    and "length (fuse svc qry) \<le> 2 * nat A"
  shows "all_pages (\<lambda>p. year_search_page svc env (clk p) qry year L p) n =
           map format_result (take (n * nat A) (filterByYear year (fuse svc qry)))"
proof (induction n)
  case 0
  show ?case by (simp add: all_pages_def)
next
  case (Suc n)
  have "effective_limit env (page_options L (int (Suc n))) = A"
    using assms(1) by (simp add: effective_limit_page_options)
  from year_search_page_block[OF this assms(2), of svc "clk (int (Suc n))" qry year]
  have pg: "year_search_page svc env (clk (int (Suc n))) qry year L (int (Suc n)) =
        map format_result (take (nat A) (drop (n * nat A)
          (filterByYear year (take (nat (A * int (Suc n) * 2)) (fuse svc qry)))))"
    by simp
  have "nat (A * int (Suc n) * 2) = 2 * nat A * Suc n"
    using assms(2) by (simp add: nat_mult_distrib nat_add_distrib algebra_simps)
  then have "2 * nat A \<le> nat (A * int (Suc n) * 2)" by simp
  with assms(3) have "take (nat (A * int (Suc n) * 2)) (fuse svc qry) = fuse svc qry"
    by simp
  with pg have "year_search_page svc env (clk (int (Suc n))) qry year L (int (Suc n)) =
        map format_result (take (nat A) (drop (n * nat A) (filterByYear year (fuse svc qry))))"
    by simp
  then show ?case
    unfolding all_pages_Suc Suc take_Suc_block by simp
qed

section \<open>The small inventory, evaluated\<close>

lemma toyota_hits:
  "fuse toyota_service ''Toyota'' = [hit 0 item_A1, hit 1 item_A2, hit 2 item_A3]"
  by (simp add: toyota_service_def toyota_fuse_def)

lemma toyota_capped:
  "fuse_search (fuse toyota_service) ''Toyota'' (- 1) =
     [hit 0 item_A1, hit 1 item_A2, hit 2 item_A3]"
  "fuse_search (fuse toyota_service) ''Toyota'' 1 = [hit 0 item_A1]"
  "fuse_search (fuse toyota_service) ''Toyota'' 2 = [hit 0 item_A1, hit 1 item_A2]"
  "fuse_search (fuse toyota_service) ''Toyota'' 4 =
     [hit 0 item_A1, hit 1 item_A2, hit 2 item_A3]"
  "fuse_search (fuse toyota_service) ''Toyota'' 6 =
     [hit 0 item_A1, hit 1 item_A2, hit 2 item_A3]"
  "fuse_search (fuse toyota_service) ''Toyota'' 20 =
     [hit 0 item_A1, hit 1 item_A2, hit 2 item_A3]"
  by (simp_all add: fuse_search_def toyota_hits)

lemma toyota_ids:
  "inventory toyota_service = [item_A1, item_A2, item_A3]"
  "producto_id item_A1 = ''A1''" "producto_id item_A2 = ''A2''" "producto_id item_A3 = ''A3''"
  by (simp_all add: toyota_service_def item_A1_def item_A2_def item_A3_def)

lemma default_limits:
  "or_default (MAX_SEARCH_LIMIT default_env) 100 = 100"
  "or_default (DEFAULT_SEARCH_LIMIT default_env) 10 = 10"
  by (simp_all add: default_env_def or_default_def)

lemma hit_years:
  "anio_desde (item (hit i item_A1)) = 2015" "anio_hasta (item (hit i item_A1)) = 2020"
  "anio_desde (item (hit i item_A2)) = 2016" "anio_hasta (item (hit i item_A2)) = 2021"
  "anio_desde (item (hit i item_A3)) = 2010" "anio_hasta (item (hit i item_A3)) = 2014"
  by (simp_all add: hit_def item_A1_def item_A2_def item_A3_def)

lemma year_2012_hits:
  "\<not> year_in_range 2012 (hit i item_A1)" "\<not> year_in_range 2012 (hit i item_A2)"
  "year_in_range 2012 (hit i item_A3)"
  by (simp_all add: year_in_range_def hit_years)

lemma filterByYear_2012:
  "filterByYear (Some 2012) [hit i item_A1, hit j item_A2] = []"
  "filterByYear (Some 2012) [hit i item_A1, hit j item_A2, hit k item_A3] = [hit k item_A3]"
  by (simp_all add: filterByYear_def year_2012_hits)

lemma trim_Toyota: "trim ''Toyota '' = ''Toyota''"
  by (simp add: trim_def white_space_def)

lemma advanced_year_ok_hits:
  "\<not> advanced_year_ok (Number 2010) (Number 2014) (format_result (hit i item_A1))"
  "\<not> advanced_year_ok (Number 2010) (Number 2014) (format_result (hit i item_A2))"
  "advanced_year_ok (Number 2010) (Number 2014) (format_result (hit i item_A3))"
  by (simp_all add: advanced_year_ok_def format_result_def hit_years)

section \<open>Total and page count\<close>

text \<open>
  C1: without a year filter, \<^verbatim>\<open>total\<close> is claimed to be the number of all records that
  match the query and \<^verbatim>\<open>totalPages\<close> the ceiling of that number over the effective limit,
  whatever the page.  The service counts the list already cut to \<open>limit * page\<close> entries:
  with three matches and limit \<open>2\<close>, page \<open>1\<close> reports a total of \<open>2\<close> on one page, and
  page \<open>2\<close> a total of \<open>3\<close> on two pages.
\<close>

theorem search_total_capped:
  "length (fuse toyota_service ''Toyota'') = 3 \<and>
   total (data (search toyota_service default_env (0, 1) ''Toyota'' (page_options 2 1))) = 2 \<and>
   totalPages (data (search toyota_service default_env (0, 1) ''Toyota'' (page_options 2 1)))
     = Finite 1 \<and>
   total (data (search toyota_service default_env (0, 1) ''Toyota'' (page_options 2 2))) = 3 \<and>
   totalPages (data (search toyota_service default_env (0, 1) ''Toyota'' (page_options 2 2)))
     = Finite 2"
  by (simp add: search_def toyota_hits default_limits page_options_def fuse_search_def
      ceil_div_def Let_def)

section \<open>Pagination round trip\<close>

text \<open>
  C2, as stated: the pages \<open>1\<close> to \<^verbatim>\<open>totalPages\<close> of a year-filtered search reproduce the
  whole ranked and filtered sequence.  Here the only record of the year 2012 is ranked
  third; at limit \<open>1\<close> page \<open>p\<close> filters the first \<open>2 * p\<close> ranked matches only, so the
  first call reports no page at all and no page returns the record.
\<close>

theorem year_pages_omit_candidate:
  "map format_result (filterByYear (Some 2012) (fuse toyota_service ''Toyota'')) =
     [format_result (hit 2 item_A3)] \<and>
   totalPages (data (searchWithYearRange toyota_service default_env (0, 1) ''Toyota''
     (Some 2012) (page_options 1 1))) = Finite 0 \<and>
   year_search_page toyota_service default_env (0, 1) ''Toyota'' (Some 2012) 1 1 = [] \<and>
   year_search_page toyota_service default_env (0, 1) ''Toyota'' (Some 2012) 1 2 = [] \<and>
   year_search_page toyota_service default_env (0, 1) ''Toyota'' (Some 2012) 1 3 = []"
proof -
  have s: "js_slice [a] 1 2 = []" "js_slice [a] 2 3 = []" for a :: fuse_result
    by (simp_all add: js_slice_def)
  have 1: "map format_result (filterByYear (Some 2012) (fuse toyota_service ''Toyota'')) =
     [format_result (hit 2 item_A3)]"
    by (simp add: toyota_hits filterByYear_2012)
  have 2: "totalPages (data (searchWithYearRange toyota_service default_env (0, 1) ''Toyota''
     (Some 2012) (page_options 1 1))) = Finite 0"
    by (simp add: searchWithYearRange_def default_limits page_options_def toyota_capped
        filterByYear_2012 ceil_div_def Let_def)
  have 3: "year_search_page toyota_service default_env (0, 1) ''Toyota'' (Some 2012) 1 1 = []"
    by (simp add: year_search_page_def searchWithYearRange_def default_limits page_options_def
        toyota_capped filterByYear_2012 js_slice_Nil Let_def)
  have 4: "year_search_page toyota_service default_env (0, 1) ''Toyota'' (Some 2012) 1 2 = []"
    by (simp add: year_search_page_def searchWithYearRange_def default_limits page_options_def
        toyota_capped filterByYear_2012 s Let_def)
  have 5: "year_search_page toyota_service default_env (0, 1) ''Toyota'' (Some 2012) 1 3 = []"
    by (simp add: year_search_page_def searchWithYearRange_def default_limits page_options_def
        toyota_capped filterByYear_2012 s Let_def)
  from 1 2 3 4 5 show ?thesis by simp
qed

text \<open>
  C2, amended: at an effective limit \<open>A \<ge> 1\<close>, the first \<open>n\<close> pages of \<^verbatim>\<open>search\<close> are the
  first \<open>n * A\<close> entries of the ranked sequence, each once and in order, so they are the
  whole sequence as soon as \<open>n * A\<close> reaches the number of matches.  Page \<open>p\<close> of the
  year-filtered search is the \<open>p\<close>-th block of \<open>A\<close> entries of the filter applied to the
  first \<open>2 * A * p\<close> ranked matches; the first \<open>n\<close> pages are a subsequence of the first
  \<open>n * A\<close> entries of the ranked and filtered sequence (no entry twice, none out of
  order), and they are exactly those entries, hence the whole filtered sequence once
  \<open>n * A\<close> reaches its length, when the number of matches is at most \<open>2 * A\<close>.
\<close>

theorem pages_roundtrip:
  assumes "effective_limit env (page_options L 1) = A" and "1 \<le> A"
  shows "all_pages (\<lambda>p. search_page svc env (clk p) qry L p) n =
           map format_result (take (n * nat A) (fuse svc qry)) \<and>
         (length (fuse svc qry) \<le> n * nat A \<longrightarrow>
            all_pages (\<lambda>p. search_page svc env (clk p) qry L p) n =
              map format_result (fuse svc qry)) \<and>
         (1 \<le> p \<longrightarrow>
            year_search_page svc env (clk p) qry year L p =
              map format_result
                (take (nat A) (drop (nat (p - 1) * nat A)
                   (filterByYear year (take (nat (A * p * 2)) (fuse svc qry)))))) \<and>
         subseq (all_pages (\<lambda>p. year_search_page svc env (clk p) qry year L p) n)
           (map format_result (take (n * nat A) (filterByYear year (fuse svc qry)))) \<and>
         (length (fuse svc qry) \<le> 2 * nat A \<longrightarrow>
            all_pages (\<lambda>p. year_search_page svc env (clk p) qry year L p) n =
              map format_result (take (n * nat A) (filterByYear year (fuse svc qry)))) \<and>
         (length (fuse svc qry) \<le> 2 * nat A \<and>
          length (filterByYear year (fuse svc qry)) \<le> n * nat A \<longrightarrow>
            all_pages (\<lambda>p. year_search_page svc env (clk p) qry year L p) n =
              map format_result (filterByYear year (fuse svc qry)))"
proof -
  have A': "min L (or_default (MAX_SEARCH_LIMIT env) 100) = A"
    using assms(1) by (simp add: effective_limit_page_options)
  have 1: "all_pages (\<lambda>p. search_page svc env (clk p) qry L p) n =
           map format_result (take (n * nat A) (fuse svc qry))"
    by (rule all_pages_search[OF A' assms(2)])
  have 3: "year_search_page svc env (clk p) qry year L p =
              map format_result
                (take (nat A) (drop (nat (p - 1) * nat A)
                   (filterByYear year (take (nat (A * p * 2)) (fuse svc qry)))))" if "1 \<le> p"
  proof -
    have "effective_limit env (page_options L p) = A"
      using A' by (simp add: effective_limit_page_options)
    from year_search_page_block[OF this assms(2) that] show ?thesis .
  qed
  have 4: "subseq (all_pages (\<lambda>p. year_search_page svc env (clk p) qry year L p) n)
           (map format_result (take (n * nat A) (filterByYear year (fuse svc qry))))"
    by (rule all_pages_year_search[OF A' assms(2)])
  have 5: "all_pages (\<lambda>p. year_search_page svc env (clk p) qry year L p) n =
              map format_result (take (n * nat A) (filterByYear year (fuse svc qry)))"
    if "length (fuse svc qry) \<le> 2 * nat A"
    by (rule all_pages_year_exact[OF A' assms(2) that])
  from 1 3 4 5 show ?thesis by simp
qed

text \<open>
  The amended round trip on the small inventory: limit \<open>2\<close>, two pages, three matches, one
  of them of the year 2012.
\<close>

theorem pages_roundtrip_witness:
  "effective_limit default_env (page_options 2 1) = 2 \<and> (1::int) \<le> 2 \<and>
   length (fuse toyota_service ''Toyota'') \<le> 2 * nat 2 \<and> (1::int) \<le> 1 \<and>
   length (filterByYear (Some 2012) (fuse toyota_service ''Toyota'')) \<le> 2 * nat 2 \<and>
   all_pages (\<lambda>p. search_page toyota_service default_env (0, 1) ''Toyota'' 2 p) 2 =
     map format_result (fuse toyota_service ''Toyota'') \<and>
   year_search_page toyota_service default_env (0, 1) ''Toyota'' (Some 2012) 2 1 =
     [format_result (hit 2 item_A3)] \<and>
   all_pages (\<lambda>p. year_search_page toyota_service default_env (0, 1) ''Toyota''
                     (Some 2012) 2 p) 2 =
     map format_result (filterByYear (Some 2012) (fuse toyota_service ''Toyota'')) \<and>
   map format_result (filterByYear (Some 2012) (fuse toyota_service ''Toyota'')) =
     [format_result (hit 2 item_A3)]"
proof -
  have e: "effective_limit default_env (page_options 2 1) = 2"
    by (simp add: effective_limit_page_options default_limits)
  have l: "length (fuse toyota_service ''Toyota'') \<le> 2 * nat 2"
    by (simp add: toyota_hits)
  have f: "filterByYear (Some 2012) (fuse toyota_service ''Toyota'') = [hit 2 item_A3]"
    by (simp add: toyota_hits filterByYear_2012)
  have c: "take (nat (2 * 1 * 2)) (fuse toyota_service ''Toyota'') =
             fuse toyota_service ''Toyota''"
    by (simp add: toyota_hits)
  from pages_roundtrip[OF e, of toyota_service "\<lambda>_. (0, 1)" "''Toyota''" 2 1 "Some 2012"]
    e l f c
  show ?thesis by simp
qed

section \<open>The year filter\<close>

lemma year_results_shape:
  "\<exists>cands s e. results (data (searchWithYearRange svc env clock qry year opts)) =
     map format_result (js_slice (filterByYear year cands) s e)"
  by (simp add: searchWithYearRange_def Let_def) blast

text \<open>
  C3: when the year filter of \<^verbatim>\<open>searchWithYearRange\<close> is active for the year \<open>Y\<close> (the call
  reports \<^verbatim>\<open>yearFiltered\<close>), every returned record has \<open>anio_desde \<le> Y \<le> anio_hasta\<close>, and
  a candidate is kept by the filter exactly when its years satisfy that condition, so
  every candidate the filter excludes violates it.
\<close>

theorem year_filter_correct:
  assumes "yearFiltered (data (searchWithYearRange svc env clock qry (Some Y) opts))"
  shows "(\<forall>x \<in> set (results (data (searchWithYearRange svc env clock qry (Some Y) opts))).
            anio_desde x \<le> Y \<and> Y \<le> anio_hasta x) \<and>
         (\<forall>r \<in> set cands.
            (r \<in> set (filterByYear (Some Y) cands)) =
            (anio_desde (item r) \<le> Y \<and> Y \<le> anio_hasta (item r)))"
proof -
  from assms have Y: "Y \<noteq> 0" by (simp add: searchWithYearRange_def Let_def)
  have kept: "anio_desde (item r) \<le> Y \<and> Y \<le> anio_hasta (item r)"
    if "r \<in> set (filterByYear (Some Y) cs)" for r cs
    using that Y by (simp add: filterByYear_def year_in_range_def)
  have "anio_desde x \<le> Y \<and> Y \<le> anio_hasta x"
    if x: "x \<in> set (results (data (searchWithYearRange svc env clock qry (Some Y) opts)))" for x
  proof -
    from year_results_shape[of svc env clock qry "Some Y" opts]
    obtain cs s e where
      "results (data (searchWithYearRange svc env clock qry (Some Y) opts)) =
         map format_result (js_slice (filterByYear (Some Y) cs) s e)"
      by blast
    with x obtain r where r: "r \<in> set (js_slice (filterByYear (Some Y) cs) s e)"
      and xr: "x = format_result r" by auto
    from r have "r \<in> set (filterByYear (Some Y) cs)"
      by (rule subsetD[OF set_js_slice])
    from kept[OF this] xr show ?thesis by (simp add: format_result_def)
  qed
  moreover have "(r \<in> set (filterByYear (Some Y) cands)) =
            (anio_desde (item r) \<le> Y \<and> Y \<le> anio_hasta (item r))" if "r \<in> set cands" for r
    using that Y by (simp add: filterByYear_def year_in_range_def)
  ultimately show ?thesis by blast
qed

text \<open>
  The year 2012 on the small inventory: the record of 2010 to 2014 is returned, the
  record of 2015 to 2020 is a candidate that the filter excludes.
\<close>

theorem year_filter_witness:
  "yearFiltered (data (searchWithYearRange toyota_service default_env (0, 1) ''Toyota''
     (Some 2012) (page_options 10 1))) \<and>
   results (data (searchWithYearRange toyota_service default_env (0, 1) ''Toyota''
     (Some 2012) (page_options 10 1))) = [format_result (hit 2 item_A3)] \<and>
   anio_desde (format_result (hit 2 item_A3)) \<le> 2012 \<and>
   2012 \<le> anio_hasta (format_result (hit 2 item_A3)) \<and>
   hit 0 item_A1 \<in> set (fuse toyota_service ''Toyota'') \<and>
   hit 0 item_A1 \<notin> set (filterByYear (Some 2012) (fuse toyota_service ''Toyota'')) \<and>
   \<not> (anio_desde (item (hit 0 item_A1)) \<le> 2012 \<and> 2012 \<le> anio_hasta (item (hit 0 item_A1)))"
proof -
  have fl: "yearFiltered (data (searchWithYearRange toyota_service default_env (0, 1) ''Toyota''
     (Some 2012) (page_options 10 1)))"
    by (simp add: searchWithYearRange_def Let_def)
  have s: "js_slice [a] 0 10 = [a]" for a :: fuse_result
    by (simp add: js_slice_def)
  have r: "results (data (searchWithYearRange toyota_service default_env (0, 1) ''Toyota''
     (Some 2012) (page_options 10 1))) = [format_result (hit 2 item_A3)]"
    by (simp add: searchWithYearRange_def default_limits page_options_def toyota_capped
        filterByYear_2012 s Let_def)
  have m: "hit 0 item_A1 \<in> set (fuse toyota_service ''Toyota'')"
    by (simp add: toyota_hits)
  from year_filter_correct[OF fl, of "fuse toyota_service ''Toyota''"] fl r m
  show ?thesis by (simp add: hit_years)
qed

text \<open>
  C4: every search variant with a year filter is claimed to filter the ranked candidates
  before the page is cut.  \<^verbatim>\<open>advancedSearch\<close> filters the page that \<^verbatim>\<open>search\<close> has
  already cut: at limit \<open>1\<close> the page holds the record of 2015, the bounds 2010 to 2014
  remove it, and the reply has no result and a total of \<open>0\<close>, although the third ranked
  record lies within the bounds.
\<close>

theorem advancedSearch_filters_page:
  "advancedSearch toyota_service default_env (0, 1)
     \<lparr>q = Some ''Toyota'', brand = None, condition = None, quality = None,
      yearFrom = Number 2010, yearTo = Number 2014, limit = Number 1, page = Absent,
      threshold = None\<rparr> =
   Json \<lparr>success = True,
         data = \<lparr>results = [], total = 0, page = 1, limit = 1, totalPages = Finite 1,
                 query = ''Toyota'', searchTime = 1\<rparr>\<rparr> \<and>
   filter (advanced_year_ok (Number 2010) (Number 2014))
     (map format_result (fuse toyota_service ''Toyota'')) = [format_result (hit 2 item_A3)]"
proof -
  have s: "js_slice [a] 0 1 = [a]" for a :: fuse_result
    by (simp add: js_slice_def)
  have "search toyota_service default_env (0, 1) ''Toyota''
          \<lparr>options.limit = Some 1, options.page = Some 1, options.threshold = None,
           fields' = None\<rparr> =
        \<lparr>success = True,
         data = \<lparr>results = [format_result (hit 0 item_A1)], total = 1, page = 1, limit = 1,
                 totalPages = Finite 1, query = ''Toyota'', searchTime = 1\<rparr>\<rparr>"
    by (simp add: search_def default_limits toyota_capped s ceil_div_def Let_def)
  then show ?thesis
    by (simp add: advancedSearch_def truthy_def present_def parseInt_or_undefined_def
        parseInt_or_def query_term_def trim_Toyota advanced_year_ok_hits toyota_hits Let_def)
qed

section \<open>Field-specific searches\<close>

text \<open>
  C5: \<^verbatim>\<open>searchByBrand\<close> and \<^verbatim>\<open>searchByDescription\<close> return what \<^verbatim>\<open>search\<close> returns on
  the same query and options: the \<^verbatim>\<open>fields\<close> entry they add is never read.
\<close>

theorem field_searches_equal_search:
  "searchByBrand svc env clock qry opts = search svc env clock qry opts \<and>
   searchByDescription svc env clock qry opts = search svc env clock qry opts"
  by (simp add: searchByBrand_def searchByDescription_def search_def)

section \<open>The limit\<close>

text \<open>
  C6: the limit is claimed to be cut to the configured maximum, and a limit of zero or
  less to be clamped or rejected.  The service only takes the minimum with the maximum:
  the limit \<open>-1\<close> is answered with success, a limit of \<open>-1\<close>, the slice from \<open>0\<close> to \<open>-1\<close>
  (all matches but the last) and \<open>-3\<close> pages.
\<close>

theorem search_negative_limit:
  "search toyota_service default_env (0, 1) ''Toyota'' (page_options (- 1) 1) =
     \<lparr>success = True,
      data = \<lparr>results = [format_result (hit 0 item_A1), format_result (hit 1 item_A2)],
              total = 3, page = 1, limit = - 1, totalPages = Finite (- 3),
              query = ''Toyota'', searchTime = 1\<rparr>\<rparr>"
proof -
  have s: "js_slice [a, b, c] 0 (- 1) = [a, b]" for a b c :: fuse_result
    by (simp add: js_slice_def)
  show ?thesis
    by (simp add: search_def default_limits page_options_def toyota_capped s ceil_div_def
        Let_def)
qed

section \<open>The empty query\<close>

lemma fuzzy_match_empty:
  "1 \<le> minMatchLength cfg \<Longrightarrow> fuzzy_match c cfg [] tx = None"
  by (simp add: fuzzy_match_def)

lemma scoreRecord_empty:
  "1 \<le> minMatchLength cfg \<Longrightarrow> scoreRecord c cfg [] r = None"
  by (simp add: scoreRecord_def matched_fields_def map_filter_simps fuzzy_match_empty)

lemma rankAndScore_empty:
  "1 \<le> minMatchLength cfg \<Longrightarrow> rankAndScore c cfg store [] = []"
  by (simp add: rankAndScore_def map_filter_def scoreRecord_empty split_def)

text \<open>
  C7: with the matcher of the specification (a minimum match length of at least one),
  the empty query has no candidate in any Record Store, and the search pipeline returns
  an empty page with a total of \<open>0\<close>.
\<close>

theorem empty_query_no_candidates:
  assumes "1 \<le> minMatchLength cfg"
  shows "rankAndScore c cfg store [] = [] \<and>
         results (data (search (spec_service c cfg store) env clock [] opts)) = [] \<and>
         total (data (search (spec_service c cfg store) env clock [] opts)) = 0"
proof -
  have "fuse_search (fuse (spec_service c cfg store)) [] k = []" for k
    using assms by (simp add: fuse_search_def spec_service_def rankAndScore_empty)
  then show ?thesis
    using assms by (simp add: search_def Let_def js_slice_Nil rankAndScore_empty)
qed

theorem empty_query_witness:
  "1 \<le> minMatchLength default_config \<and>
   rankAndScore sample_cost default_config [item_A1, item_A2, item_A3] [] = [] \<and>
   results (data (search (spec_service sample_cost default_config [item_A1, item_A2, item_A3])
     default_env (0, 1) [] (page_options 10 1))) = [] \<and>
   total (data (search (spec_service sample_cost default_config [item_A1, item_A2, item_A3])
     default_env (0, 1) [] (page_options 10 1))) = 0"
proof -
  have m: "1 \<le> minMatchLength default_config" by (simp add: default_config_def)
  from empty_query_no_candidates[OF m, of sample_cost "[item_A1, item_A2, item_A3]"
      default_env "(0, 1)" "page_options 10 1"] m
  show ?thesis by simp
qed

section \<open>Lookup by key\<close>

text \<open>
  C8: \<^verbatim>\<open>getItemById\<close> returns a record of the inventory with the given key when there is
  one, and the value \<^verbatim>\<open>{success: false, message: 'Item not found'}\<close> when there is none;
  it is a total function, so no lookup raises.
\<close>

theorem getItemById_found_or_not:
  "((\<exists>it \<in> set (inventory svc). producto_id it = productId) \<longrightarrow>
      (\<exists>it. getItemById svc productId = Found it \<and> it \<in> set (inventory svc)
            \<and> producto_id it = productId)) \<and>
   ((\<forall>it \<in> set (inventory svc). producto_id it \<noteq> productId) \<longrightarrow>
      getItemById svc productId = NotFound ''Item not found'')"
proof (cases "find (\<lambda>it. producto_id it = productId) (inventory svc)")
  case None
  then have "\<forall>it \<in> set (inventory svc). producto_id it \<noteq> productId"
    by (auto simp: find_None_iff)
  moreover from None have "getItemById svc productId = NotFound ''Item not found''"
    by (simp add: getItemById_def)
  ultimately show ?thesis by blast
next
  case (Some it)
  then have "it \<in> set (inventory svc) \<and> producto_id it = productId"
    by (auto simp: find_Some_iff)
  moreover from Some have "getItemById svc productId = Found it"
    by (simp add: getItemById_def)
  ultimately show ?thesis by blast
qed

theorem getItemById_witness:
  "(\<exists>it \<in> set (inventory toyota_service). producto_id it = ''A2'') \<and>
   (\<exists>it. getItemById toyota_service ''A2'' = Found it \<and> it \<in> set (inventory toyota_service)
         \<and> producto_id it = ''A2'') \<and>
   getItemById toyota_service ''ZZZ'' = NotFound ''Item not found''"
proof -
  have a: "\<exists>it \<in> set (inventory toyota_service). producto_id it = ''A2''"
    by (simp add: toyota_ids)
  have b: "\<forall>it \<in> set (inventory toyota_service). producto_id it \<noteq> ''ZZZ''"
    by (simp add: toyota_ids)
  from getItemById_found_or_not[of toyota_service "''A2''"] a
       getItemById_found_or_not[of toyota_service "''ZZZ''"] b
  show ?thesis by blast
qed

section \<open>Threshold monotonicity\<close>

lemma fuzzy_match_mono:
  assumes "SearchConfiguration.threshold cfg \<le> t" and "fuzzy_match c cfg qry tx = Some s"
  shows "fuzzy_match c (cfg\<lparr>SearchConfiguration.threshold := t\<rparr>) qry tx = Some s"
  using assms by (auto simp: fuzzy_match_def split: if_splits)

lemma matched_fields_mono:
  assumes "SearchConfiguration.threshold cfg \<le> t" and "matched_fields c cfg qry r \<noteq> []"
  shows "matched_fields c (cfg\<lparr>SearchConfiguration.threshold := t\<rparr>) qry r \<noteq> []"
proof -
  from assms(2) obtain tx s where "fuzzy_match c cfg qry tx = Some s"
    and "tx = marca_vehiculo r \<or> tx = descripcion_corta r"
    by (auto simp: matched_fields_def map_filter_simps split: option.splits)
  with fuzzy_match_mono[OF assms(1)]
  have "fuzzy_match c (cfg\<lparr>SearchConfiguration.threshold := t\<rparr>) qry tx = Some s" by blast
  with \<open>tx = marca_vehiculo r \<or> tx = descripcion_corta r\<close> show ?thesis
    by (auto simp: matched_fields_def map_filter_simps split: option.splits)
qed

lemma scoreRecord_mono:
  assumes "SearchConfiguration.threshold cfg \<le> t" and "scoreRecord c cfg qry r = Some s"
  shows "\<exists>s'. scoreRecord c (cfg\<lparr>SearchConfiguration.threshold := t\<rparr>) qry r = Some s'"
proof -
  from assms(2) have "matched_fields c cfg qry r \<noteq> []"
    by (auto simp: scoreRecord_def Let_def split: if_splits)
  from matched_fields_mono[OF assms(1) this] show ?thesis
    by (simp add: scoreRecord_def Let_def)
qed

text \<open>The ranked list holds exactly the records of the store that have a score.\<close>

lemma ranked_records:
  "(\<lambda>x. (refIndex x, item x)) ` set (rankAndScore c cfg store qry) =
   {(i, r). (i, r) \<in> set (enumerate 0 store) \<and> scoreRecord c cfg qry r \<noteq> None}"
  by (force simp: rankAndScore_def map_filter_def image_iff)

lemma sample_score_Toyota:
  "scoreRecord sample_cost (default_config\<lparr>SearchConfiguration.threshold := 1 / 10\<rparr>)
     ''Toyota'' item_A1 = Some 0"
  by (simp add: scoreRecord_def matched_fields_def map_filter_simps fuzzy_match_def
      sample_cost_def default_config_def item_A1_def Let_def)

text \<open>
  With the matcher of the specification, a Record Store and a query fixed, raising the
  threshold handed to the matcher and changing nothing else keeps every record (with its
  position in the store) that matched before in the ranked result.
\<close>

theorem threshold_monotone:
  assumes "SearchConfiguration.threshold cfg \<le> t"
  shows "(\<lambda>x. (refIndex x, item x)) ` set (rankAndScore c cfg store qry) \<subseteq>
         (\<lambda>x. (refIndex x, item x)) `
           set (rankAndScore c (cfg\<lparr>SearchConfiguration.threshold := t\<rparr>) store qry)"
  unfolding ranked_records using scoreRecord_mono[OF assms] by auto

theorem threshold_monotone_witness:
  "SearchConfiguration.threshold (default_config\<lparr>SearchConfiguration.threshold := 1 / 10\<rparr>)
     \<le> 3 / 10 \<and>
   (0, item_A1) \<in> (\<lambda>x. (refIndex x, item x)) `
     set (rankAndScore sample_cost (default_config\<lparr>SearchConfiguration.threshold := 1 / 10\<rparr>)
            [item_A1, item_A2, item_A3] ''Toyota'') \<and>
   (\<lambda>x. (refIndex x, item x)) `
     set (rankAndScore sample_cost (default_config\<lparr>SearchConfiguration.threshold := 1 / 10\<rparr>)
            [item_A1, item_A2, item_A3] ''Toyota'') \<subseteq>
   (\<lambda>x. (refIndex x, item x)) `
     set (rankAndScore sample_cost (default_config\<lparr>SearchConfiguration.threshold := 3 / 10\<rparr>)
            [item_A1, item_A2, item_A3] ''Toyota'')"
proof -
  have t: "SearchConfiguration.threshold
             (default_config\<lparr>SearchConfiguration.threshold := 1 / 10\<rparr>) \<le> 3 / 10"
    by simp
  have m: "(0, item_A1) \<in> (\<lambda>x. (refIndex x, item x)) `
     set (rankAndScore sample_cost (default_config\<lparr>SearchConfiguration.threshold := 1 / 10\<rparr>)
            [item_A1, item_A2, item_A3] ''Toyota'')"
    unfolding ranked_records by (simp add: sample_score_Toyota)
  from threshold_monotone[OF t, of sample_cost "[item_A1, item_A2, item_A3]" "''Toyota''"] t m
  show ?thesis by simp
qed




section \<open>Determinism\<close>

text \<open>
  C10, as stated: two calls on the same Record Store, query and configuration return
  results equal in every field.  The field \<^verbatim>\<open>searchTime\<close> is the time the call took on the
  clock: a call that took one millisecond and a call that took four differ.
\<close>

theorem searchTime_differs:
  "search toyota_service default_env (0, 1) ''Toyota'' (page_options 2 1) \<noteq>
   search toyota_service default_env (5, 9) ''Toyota'' (page_options 2 1)"
  by (simp add: search_def Let_def)

text \<open>
  C10, amended: two calls on the same Record Store, query and configuration, at any
  readings of the clock, return results equal in every field but \<^verbatim>\<open>searchTime\<close>; this
  holds for \<^verbatim>\<open>search\<close> and for \<^verbatim>\<open>searchWithYearRange\<close>.
\<close>

theorem search_deterministic_but_searchTime:
  "success (search svc env clock qry opts) = success (search svc env clock' qry opts) \<and>
   (data (search svc env clock qry opts))\<lparr>searchTime := t\<rparr> =
     (data (search svc env clock' qry opts))\<lparr>searchTime := t\<rparr> \<and>
   success (searchWithYearRange svc env clock qry year opts) =
     success (searchWithYearRange svc env clock' qry year opts) \<and>
   (data (searchWithYearRange svc env clock qry year opts))\<lparr>searchTime := t\<rparr> =
     (data (searchWithYearRange svc env clock' qry year opts))\<lparr>searchTime := t\<rparr>"
  by (simp add: search_def searchWithYearRange_def Let_def)

end
